theory Spec2Isabelle
  imports Main
begin

section \<open>The monitoring service of \<^verbatim>\<open>app/app.py\<close>\<close>

text \<open>
  The program is a Flask application with three handlers: \<^verbatim>\<open>home\<close> (\<^verbatim>\<open>/\<close>),
  \<^verbatim>\<open>health\<close> (\<^verbatim>\<open>/health\<close>) and \<^verbatim>\<open>info\<close> (\<^verbatim>\<open>/info\<close>). The handlers
  are embedded as HOL functions. What a handler reads from outside is a parameter: the
  process environment, the behaviour of the PostgreSQL driver during the request, and the
  value of \<^verbatim>\<open>datetime.now()\<close>. What it does to the driver is recorded as a list of
  events, and a Python exception is a value.
\<close>

subsection \<open>Configuration (lines 10 to 13)\<close>

type_synonym environ = "string \<rightharpoonup> string"

text \<open>\<^verbatim>\<open>os.environ.get(key, default)\<close>: the value of a variable that is set (also when
  it is set to the empty string), the default otherwise.\<close>

definition environ_get :: "environ \<Rightarrow> string \<Rightarrow> string \<Rightarrow> string" where
  "environ_get env key dflt = (case env key of None \<Rightarrow> dflt | Some v \<Rightarrow> v)"

record config =
  DB_HOST :: string
  DB_NAME :: string
  DB_USER :: string
  DB_PASS :: string

text \<open>The four module-level assignments, evaluated once when the module is loaded.\<close>

definition load_config :: "environ \<Rightarrow> config" where
  "load_config env =
     \<lparr> DB_HOST = environ_get env ''DB_HOST'' ''localhost'',
       DB_NAME = environ_get env ''DB_NAME'' ''testdb'',
       DB_USER = environ_get env ''DB_USER'' ''testuser'',
       DB_PASS = environ_get env ''DB_PASS'' ''testpass'' \<rparr>"

subsection \<open>Exceptions, driver calls and their trace\<close>

text \<open>An instance of \<^verbatim>\<open>Exception\<close>; \<^verbatim>\<open>str(e)\<close> is its message. Signals that are
  not \<^verbatim>\<open>Exception\<close>s (\<^verbatim>\<open>KeyboardInterrupt\<close>, \<^verbatim>\<open>SystemExit\<close>) are no failure
  of the database and are not modelled.\<close>

datatype exn = Exn string

fun str_exn :: "exn \<Rightarrow> string" where
  "str_exn (Exn msg) = msg"

datatype 'a res = Raise exn | Return 'a

text \<open>The values a column of a fetched row can hold.\<close>

datatype pyval = PyNone | PyStr string | PyInt int

text \<open>The connection object returned by \<^verbatim>\<open>psycopg2.connect\<close> and the cursor object
  returned by \<^verbatim>\<open>conn.cursor()\<close>. A request has at most one of each.\<close>

datatype connection = Connection
datatype cursor = Cursor

text \<open>
  What the driver and the server answer during one request. \<^verbatim>\<open>psycopg2.connect\<close>,
  \<^verbatim>\<open>conn.cursor()\<close>, \<^verbatim>\<open>cur.execute(sql)\<close> and \<^verbatim>\<open>cur.fetchone()\<close> return or
  raise; \<^verbatim>\<open>fetchone\<close> returns \<^verbatim>\<open>None\<close> when there is no row and a tuple otherwise.
  \<^verbatim>\<open>close()\<close> of a client-side cursor and of a connection only give up local resources
  and return \<^verbatim>\<open>None\<close>.
\<close>

record db =
  connect_result :: "string \<Rightarrow> string \<Rightarrow> string \<Rightarrow> string \<Rightarrow> connection res"
  cursor_result :: "cursor res"
  execute_result :: "string \<Rightarrow> unit res"
  fetchone_result :: "pyval list option res"

datatype event =
    EvConnect string string string string
  | EvCursor
  | EvExecute string
  | EvFetchone
  | EvCursorClose
  | EvConnClose

text \<open>A computation takes the trace so far and returns a value or an exception,
  with the trace extended by the driver calls it made.\<close>

type_synonym 'a io = "event list \<Rightarrow> 'a res \<times> event list"

definition io_return :: "'a \<Rightarrow> 'a io" where
  "io_return x tr = (Return x, tr)"

definition io_raise :: "exn \<Rightarrow> 'a io" where
  "io_raise e tr = (Raise e, tr)"

text \<open>Sequencing: an exception of the first statement skips the rest.\<close>

definition io_bind :: "'a io \<Rightarrow> ('a \<Rightarrow> 'b io) \<Rightarrow> 'b io" where
  "io_bind m f tr =
     (case m tr of (Raise e, tr') \<Rightarrow> (Raise e, tr') | (Return x, tr') \<Rightarrow> f x tr')"

text \<open>\<^verbatim>\<open>try: m except Exception as e: h(e)\<close>.\<close>

definition io_try :: "'a io \<Rightarrow> (exn \<Rightarrow> 'a io) \<Rightarrow> 'a io" where
  "io_try m h tr =
     (case m tr of (Raise e, tr') \<Rightarrow> h e tr' | (Return x, tr') \<Rightarrow> (Return x, tr'))"

text \<open>A call of the driver: the call is recorded, then it returns or raises.\<close>

definition driver_call :: "event \<Rightarrow> 'a res \<Rightarrow> 'a io" where
  "driver_call ev r tr = (r, tr @ [ev])"

definition psycopg2_connect :: "db \<Rightarrow> string \<Rightarrow> string \<Rightarrow> string \<Rightarrow> string \<Rightarrow> connection io" where
  "psycopg2_connect d host database user password =
     driver_call (EvConnect host database user password)
       (connect_result d host database user password)"

definition conn_cursor :: "db \<Rightarrow> connection \<Rightarrow> cursor io" where
  "conn_cursor d conn = driver_call EvCursor (cursor_result d)"

definition cur_execute :: "db \<Rightarrow> cursor \<Rightarrow> string \<Rightarrow> unit io" where
  "cur_execute d cur sql = driver_call (EvExecute sql) (execute_result d sql)"

definition cur_fetchone :: "db \<Rightarrow> cursor \<Rightarrow> pyval list option io" where
  "cur_fetchone d cur = driver_call EvFetchone (fetchone_result d)"

definition cur_close :: "cursor \<Rightarrow> unit io" where
  "cur_close cur = driver_call EvCursorClose (Return ())"

definition conn_close :: "connection \<Rightarrow> unit io" where
  "conn_close conn = driver_call EvConnClose (Return ())"

subsection \<open>The Python operations the handlers use\<close>

text \<open>The apostrophe, which a string literal cannot hold.\<close>

definition apostrophe :: string where
  "apostrophe = [CHR 0x27]"

text \<open>\<^verbatim>\<open>'T'\<close>: a type name as Python's messages quote it.\<close>

definition quoted :: "string \<Rightarrow> string" where
  "quoted name = apostrophe @ name @ apostrophe"

text \<open>\<^verbatim>\<open>row[0]\<close> where \<^verbatim>\<open>row\<close> is \<^verbatim>\<open>None\<close> or a tuple.\<close>

definition subscript0 :: "pyval list option \<Rightarrow> pyval io" where
  "subscript0 row =
     (case row of
        None \<Rightarrow> io_raise (Exn (quoted ''NoneType'' @ '' object is not subscriptable''))
      | Some [] \<Rightarrow> io_raise (Exn ''tuple index out of range'')
      | Some (v # _) \<Rightarrow> io_return v)"

text \<open>The characters \<^verbatim>\<open>str.split()\<close> separates at, among the code points below 256.\<close>

definition is_space :: "char \<Rightarrow> bool" where
  "is_space c \<longleftrightarrow> (of_char c :: nat) \<in> {9, 10, 11, 12, 13, 28, 29, 30, 31, 32, 133, 160}"

text \<open>\<^verbatim>\<open>s.split()\<close>: the maximal runs of characters that are not whitespace, in order.
  \<open>split_from cur s\<close> has read the token \<open>cur\<close> so far.\<close>

fun split_from :: "string \<Rightarrow> string \<Rightarrow> string list" where
  "split_from cur [] = (if cur = [] then [] else [cur])"
| "split_from cur (c # cs) =
     (if is_space c then (if cur = [] then split_from [] cs else cur # split_from [] cs)
      else split_from (cur @ [c]) cs)"

definition str_split :: "string \<Rightarrow> string list" where
  "str_split s = split_from [] s"

text \<open>\<^verbatim>\<open>v.split()\<close> on a value: only a string has the method.\<close>

definition py_split :: "pyval \<Rightarrow> string list io" where
  "py_split v =
     (case v of
        PyStr s \<Rightarrow> io_return (str_split s)
      | PyNone \<Rightarrow> io_raise (Exn (quoted ''NoneType'' @ '' object has no attribute '' @ quoted ''split''))
      | PyInt _ \<Rightarrow> io_raise (Exn (quoted ''int'' @ '' object has no attribute '' @ quoted ''split'')))"

subsection \<open>\<^verbatim>\<open>datetime.now().isoformat()\<close>\<close>

text \<open>A naive \<^verbatim>\<open>datetime\<close>, as \<^verbatim>\<open>datetime.now()\<close> returns it.\<close>

record datetime =
  year :: nat
  month :: nat
  day :: nat
  hour :: nat
  minute :: nat
  second :: nat
  microsecond :: nat

text \<open>The ranges the class \<^verbatim>\<open>datetime\<close> keeps its fields in.\<close>

definition valid_datetime :: "datetime \<Rightarrow> bool" where
  "valid_datetime t \<longleftrightarrow>
     1 \<le> year t \<and> year t \<le> 9999 \<and> 1 \<le> month t \<and> month t \<le> 12 \<and>
     1 \<le> day t \<and> day t \<le> 31 \<and> hour t < 24 \<and> minute t < 60 \<and> second t < 60 \<and>
     microsecond t < 1000000"

definition digit_char :: "nat \<Rightarrow> char" where
  "digit_char n = char_of (48 + n)"

fun decimal :: "nat \<Rightarrow> string" where
  "decimal n = (if n < 10 then [digit_char n] else decimal (n div 10) @ [digit_char (n mod 10)])"

declare decimal.simps [simp del]

text \<open>\<^verbatim>\<open>"%0wd" % n\<close>: at least \<open>w\<close> digits, zeros in front.\<close>

definition zero_pad :: "nat \<Rightarrow> nat \<Rightarrow> string" where
  "zero_pad w n = replicate (w - length (decimal n)) CHR ''0'' @ decimal n"

text \<open>\<^verbatim>\<open>isoformat()\<close> of a naive datetime: \<^verbatim>\<open>YYYY-MM-DDTHH:MM:SS\<close>, followed by
  \<^verbatim>\<open>.ffffff\<close> when the microsecond is not zero.\<close>

definition isoformat :: "datetime \<Rightarrow> string" where
  "isoformat t =
     zero_pad 4 (year t) @ ''-'' @ zero_pad 2 (month t) @ ''-'' @ zero_pad 2 (day t) @ ''T'' @
     zero_pad 2 (hour t) @ '':'' @ zero_pad 2 (minute t) @ '':'' @ zero_pad 2 (second t) @
     (if microsecond t = 0 then [] else ''.'' @ zero_pad 6 (microsecond t))"

subsection \<open>Responses\<close>

datatype jval = JStr string | JList "string list"

text \<open>The dictionary given to \<^verbatim>\<open>jsonify\<close>, in the order it is written, and the status
  code. A handler that returns the body alone is answered with 200 by Flask.\<close>

type_synonym json = "(string \<times> jval) list"
type_synonym response = "json \<times> nat"

definition jsonify :: "json \<Rightarrow> json" where
  "jsonify body = body"

definition flask_default :: "json \<Rightarrow> response" where
  "flask_default body = (body, 200)"

definition field :: "response \<Rightarrow> string \<Rightarrow> jval option" where
  "field r k = map_of (fst r) k"

definition status_code :: "response \<Rightarrow> nat" where
  "status_code r = snd r"

subsection \<open>The handlers\<close>

text \<open>Lines 15 to 26.\<close>

definition get_db_connection :: "config \<Rightarrow> db \<Rightarrow> connection option io" where
  "get_db_connection cfg d =
     io_try
       (io_bind (psycopg2_connect d (DB_HOST cfg) (DB_NAME cfg) (DB_USER cfg) (DB_PASS cfg))
          (\<lambda>conn. io_return (Some conn)))
       (\<lambda>e. io_return None)"

text \<open>Lines 28 to 36.\<close>

definition home :: "datetime \<Rightarrow> response" where
  "home now =
     flask_default (jsonify
       [(''service'', JStr ''Python test Application''),
        (''message'', JStr ''Hello from Ibrahim!''),
        (''timestamp'', JStr (isoformat now)),
        (''status'', JStr ''running'')])"

text \<open>Lines 38 to 71. A connection object is true in \<^verbatim>\<open>if conn:\<close>, \<^verbatim>\<open>None\<close> is
  false.\<close>

definition health :: "config \<Rightarrow> db \<Rightarrow> datetime \<Rightarrow> response io" where
  "health cfg d now =
     io_bind (get_db_connection cfg d) (\<lambda>conn_opt.
       case conn_opt of
         Some conn \<Rightarrow>
           io_try
             (io_bind (conn_cursor d conn) (\<lambda>cur.
              io_bind (cur_execute d cur ''SELECT version();'') (\<lambda>_.
              io_bind (cur_fetchone d cur) (\<lambda>row.
              io_bind (subscript0 row) (\<lambda>db_version.
              io_bind (cur_close cur) (\<lambda>_.
              io_bind (conn_close conn) (\<lambda>_.
              io_bind (py_split db_version) (\<lambda>tokens.
              io_return
                (jsonify
                   [(''status'', JStr ''healthy''),
                    (''database'', JStr ''connected''),
                    (''db_version'', JList (take 2 tokens)),
                    (''timestamp'', JStr (isoformat now))], 200)))))))))
             (\<lambda>e. io_return
                (jsonify
                   [(''status'', JStr ''degraded''),
                    (''database'', JStr ''error''),
                    (''error'', JStr (str_exn e)),
                    (''timestamp'', JStr (isoformat now))], 500))
       | None \<Rightarrow>
           io_return
             (jsonify
                [(''status'', JStr ''unhealthy''),
                 (''database'', JStr ''disconnected''),
                 (''timestamp'', JStr (isoformat now))], 503))"

text \<open>Lines 73 to 86.\<close>

definition info :: "config \<Rightarrow> response" where
  "info cfg =
     flask_default (jsonify
       [(''python_version'', JStr ''3.12.3''),
        (''flask_version'', JStr ''installed''),
        (''database_host'', JStr (DB_HOST cfg)),
        (''database_name'', JStr (DB_NAME cfg)),
        (''endpoints'', JList [''/ - Homepage'', ''/health - Health check'', ''/info - This page''])])"

text \<open>One request: the handler starts with an empty trace.\<close>

definition run_health :: "config \<Rightarrow> db \<Rightarrow> datetime \<Rightarrow> response res \<times> event list" where
  "run_health cfg d now = health cfg d now []"

text \<open>The three \<^verbatim>\<open>@app.route\<close> registrations. A path with no route is \<open>None\<close>.\<close>

definition serve :: "config \<Rightarrow> db \<Rightarrow> datetime \<Rightarrow> string \<Rightarrow> (response res \<times> event list) option" where
  "serve cfg d now path =
     (if path = ''/'' then Some (Return (home now), [])
      else if path = ''/health'' then Some (run_health cfg d now)
      else if path = ''/info'' then Some (Return (info cfg), [])
      else None)"

subsection \<open>The process across requests\<close>

text \<open>
  The namespace of the module lives as long as the process, and every handler can read
  and assign its variables. It holds the four configuration variables, bound when the
  module is loaded, and whatever else is bound in it.
\<close>

record process =
  module_config :: config
  module_state :: "string \<rightharpoonup> pyval"

text \<open>The namespace when the module has been loaded.\<close>

definition module_load :: "environ \<Rightarrow> process" where
  "module_load env = \<lparr> module_config = load_config env, module_state = Map.empty \<rparr>"

text \<open>
  One invocation of \<^verbatim>\<open>health\<close> by the process. The handler reads the configuration
  variables (in \<^verbatim>\<open>get_db_connection\<close>) and reads no other module variable. It has no
  \<^verbatim>\<open>global\<close> statement and assigns only \<^verbatim>\<open>conn\<close>, \<^verbatim>\<open>cur\<close> and
  \<^verbatim>\<open>db_version\<close>, which are locals of the call: the namespace after the call is the
  namespace before it.
\<close>

definition health_request ::
  "process \<Rightarrow> db \<Rightarrow> datetime \<Rightarrow> (response res \<times> event list) \<times> process" where
  "health_request p d now = (run_health (module_config p) d now, p)"

text \<open>The process answering \<^verbatim>\<open>/health\<close> requests one after the other. Each request
  comes with what the driver answers during it and with the value of the clock.\<close>

fun health_session ::
  "process \<Rightarrow> (db \<times> datetime) list \<Rightarrow> (response res \<times> event list) list \<times> process" where
  "health_session p [] = ([], p)"
| "health_session p ((d, now) # rest) =
     (case health_request p d now of (a, p') \<Rightarrow>
        (case health_session p' rest of (answers, p'') \<Rightarrow> (a # answers, p'')))"

subsection \<open>Reading a timestamp back\<close>

text \<open>
  A recogniser for the extended ISO 8601 format of a local date and time,
  \<^verbatim>\<open>YYYY-MM-DDTHH:MM:SS\<close> with an optional fraction \<^verbatim>\<open>.ffffff\<close> of six
  digits, not all zero. It is what the properties mean by a well-formed timestamp.
\<close>

definition is_digit :: "char \<Rightarrow> bool" where
  "is_digit c \<longleftrightarrow> 48 \<le> (of_char c :: nat) \<and> (of_char c :: nat) \<le> 57"

definition digit_value :: "char \<Rightarrow> nat" where
  "digit_value c = of_char c - 48"

text \<open>Exactly \<open>w\<close> digits, read from the left; the number and the rest.\<close>

fun read_digits :: "nat \<Rightarrow> nat \<Rightarrow> string \<Rightarrow> (nat \<times> string) option" where
  "read_digits 0 acc s = Some (acc, s)"
| "read_digits (Suc w) acc [] = None"
| "read_digits (Suc w) acc (c # s) =
     (if is_digit c then read_digits w (10 * acc + digit_value c) s else None)"

fun expect :: "char \<Rightarrow> string \<Rightarrow> string option" where
  "expect c [] = None"
| "expect c (x # s) = (if x = c then Some s else None)"

definition read_fraction :: "string \<Rightarrow> nat option" where
  "read_fraction s =
     (if s = [] then Some 0
      else Option.bind (expect CHR ''.'' s) (\<lambda>s1.
           Option.bind (read_digits 6 0 s1) (\<lambda>(us, s2).
           if s2 = [] \<and> us \<noteq> 0 then Some us else None)))"

definition parse_iso8601 :: "string \<Rightarrow> datetime option" where
  "parse_iso8601 s =
     Option.bind (read_digits 4 0 s) (\<lambda>(y, s1).
     Option.bind (expect CHR ''-'' s1) (\<lambda>s2.
     Option.bind (read_digits 2 0 s2) (\<lambda>(mo, s3).
     Option.bind (expect CHR ''-'' s3) (\<lambda>s4.
     Option.bind (read_digits 2 0 s4) (\<lambda>(d, s5).
     Option.bind (expect CHR ''T'' s5) (\<lambda>s6.
     Option.bind (read_digits 2 0 s6) (\<lambda>(h, s7).
     Option.bind (expect CHR '':'' s7) (\<lambda>s8.
     Option.bind (read_digits 2 0 s8) (\<lambda>(mi, s9).
     Option.bind (expect CHR '':'' s9) (\<lambda>s10.
     Option.bind (read_digits 2 0 s10) (\<lambda>(sec, s11).
     Option.bind (read_fraction s11) (\<lambda>us.
       let t = \<lparr> year = y, month = mo, day = d, hour = h, minute = mi, second = sec,
                 microsecond = us \<rparr>
       in if valid_datetime t then Some t else None))))))))))))"

subsection \<open>Vocabulary of the properties\<close>

text \<open>A response without its \<^verbatim>\<open>timestamp\<close> field.\<close>

definition drop_timestamp :: "response \<Rightarrow> response" where
  "drop_timestamp r = (filter (\<lambda>kv. fst kv \<noteq> ''timestamp'') (fst r), snd r)"

definition map_res :: "('a \<Rightarrow> 'b) \<Rightarrow> 'a res \<Rightarrow> 'b res" where
  "map_res f r = (case r of Raise e \<Rightarrow> Raise e | Return x \<Rightarrow> Return (f x))"

definition is_connect :: "event \<Rightarrow> bool" where
  "is_connect ev = (case ev of EvConnect _ _ _ _ \<Rightarrow> True | _ \<Rightarrow> False)"

text \<open>An answer of \<^verbatim>\<open>/health\<close> without its \<^verbatim>\<open>timestamp\<close> field, with the driver
  calls made for it.\<close>

definition without_timestamp :: "response res \<times> event list \<Rightarrow> response res \<times> event list" where
  "without_timestamp a = (map_res drop_timestamp (fst a), snd a)"

text \<open>The status code, \<^verbatim>\<open>status\<close>, \<^verbatim>\<open>database\<close> and version detail of an answer.
  An exception, or an answer that lacks \<^verbatim>\<open>status\<close> or \<^verbatim>\<open>database\<close>, has none.\<close>

definition summary ::
  "response res \<times> event list \<Rightarrow> (nat \<times> string \<times> string \<times> string list option) option" where
  "summary a =
     (case fst a of
        Raise _ \<Rightarrow> None
      | Return r \<Rightarrow>
          (case (field r ''status'', field r ''database'') of
             (Some (JStr s), Some (JStr b)) \<Rightarrow>
               (case field r ''db_version'' of
                  None \<Rightarrow> Some (status_code r, s, b, None)
                | Some (JList ts) \<Rightarrow> Some (status_code r, s, b, Some ts)
                | Some (JStr _) \<Rightarrow> None)
           | _ \<Rightarrow> None))"

text \<open>The trace of an invocation that opens its own connection: it starts with a
  connection attempt with the configured parameters and has no other.\<close>

definition connects_once :: "config \<Rightarrow> response res \<times> event list \<Rightarrow> bool" where
  "connects_once cfg a =
     (case snd a of
        [] \<Rightarrow> False
      | ev # rest \<Rightarrow>
          ev = EvConnect (DB_HOST cfg) (DB_NAME cfg) (DB_USER cfg) (DB_PASS cfg) \<and>
          filter is_connect rest = [])"

subsection \<open>The probe as the specification words it\<close>

text \<open>
  Section 4.1 of the specification: open a connection; if that fails the result is
  \<^verbatim>\<open>unhealthy\<close>, \<^verbatim>\<open>disconnected\<close>; otherwise run the verification query, and the
  result is \<^verbatim>\<open>healthy\<close>, \<^verbatim>\<open>connected\<close> with the first two tokens of the version
  string when the query yields one, and \<^verbatim>\<open>degraded\<close>, \<^verbatim>\<open>error\<close> when it does not.
  The status codes are 200, 500 and 503. The result is a function of the configuration
  and of what the database answers now, and of nothing else.
\<close>

text \<open>The version string the verification query yields, when it yields one.\<close>

definition query_version :: "db \<Rightarrow> string option" where
  "query_version d =
     (case cursor_result d of Raise _ \<Rightarrow> None | Return _ \<Rightarrow>
      (case execute_result d ''SELECT version();'' of Raise _ \<Rightarrow> None | Return _ \<Rightarrow>
       (case fetchone_result d of Return (Some (PyStr v # _)) \<Rightarrow> Some v | _ \<Rightarrow> None)))"

definition spec_probe :: "config \<Rightarrow> db \<Rightarrow> nat \<times> string \<times> string \<times> string list option" where
  "spec_probe cfg d =
     (case connect_result d (DB_HOST cfg) (DB_NAME cfg) (DB_USER cfg) (DB_PASS cfg) of
        Raise _ \<Rightarrow> (503, ''unhealthy'', ''disconnected'', None)
      | Return _ \<Rightarrow>
          (case query_version d of
             Some v \<Rightarrow> (200, ''healthy'', ''connected'', Some (take 2 (str_split v)))
           | None \<Rightarrow> (500, ''degraded'', ''error'', None)))"

subsection \<open>Concrete environments\<close>

text \<open>No variable set.\<close>

definition default_config :: config where
  "default_config = load_config Map.empty"

text \<open>A server that accepts the connection and answers the query with one row holding
  the string \<open>v\<close>.\<close>

definition db_serving :: "string \<Rightarrow> db" where
  "db_serving v =
     \<lparr> connect_result = (\<lambda>host database user password. Return Connection),
       cursor_result = Return Cursor,
       execute_result = (\<lambda>sql. Return ()),
       fetchone_result = Return (Some [PyStr v]) \<rparr>"

text \<open>No server: \<^verbatim>\<open>psycopg2.connect\<close> raises.\<close>

definition db_unreachable :: db where
  "db_unreachable =
     \<lparr> connect_result = (\<lambda>host database user password. Raise (Exn ''connection refused'')),
       cursor_result = Return Cursor,
       execute_result = (\<lambda>sql. Return ()),
       fetchone_result = Return (Some [PyStr ''PostgreSQL 16.3 on x86_64-pc-linux-gnu'']) \<rparr>"

text \<open>A server that accepts the connection and rejects the statement with the message
  \<open>msg\<close>.\<close>

definition db_query_error :: "string \<Rightarrow> db" where
  "db_query_error msg =
     \<lparr> connect_result = (\<lambda>host database user password. Return Connection),
       cursor_result = Return Cursor,
       execute_result = (\<lambda>sql. Raise (Exn msg)),
       fetchone_result = Return None \<rparr>"

text \<open>A server that runs the statement and has no row for it.\<close>

definition db_no_row :: db where
  "db_no_row =
     \<lparr> connect_result = (\<lambda>host database user password. Return Connection),
       cursor_result = Return Cursor,
       execute_result = (\<lambda>sql. Return ()),
       fetchone_result = Return None \<rparr>"

definition noon :: datetime where
  "noon = \<lparr> year = 2024, month = 5, day = 7, hour = 12, minute = 0, second = 9,
            microsecond = 0 \<rparr>"

definition midnight :: datetime where
  "midnight = \<lparr> year = 2024, month = 5, day = 8, hour = 0, minute = 0, second = 0,
                microsecond = 250000 \<rparr>"

text \<open>A process just loaded with no variable set, and the same process with something
  else bound in its namespace.\<close>

definition fresh_process :: process where
  "fresh_process = module_load Map.empty"

definition used_process :: process where
  "used_process = fresh_process \<lparr> module_state := [''last_status'' \<mapsto> PyStr ''unhealthy''] \<rparr>"

definition three_checks :: "datetime \<Rightarrow> (db \<times> datetime) list" where
  "three_checks now =
     [(db_unreachable, now), (db_serving ''PostgreSQL 16.3 on x86_64'', now),
      (db_query_error ''statement timeout'', now)]"

section \<open>Properties\<close>

subsection \<open>\<^verbatim>\<open>str.split()\<close>\<close>

lemma split_from_append_space:
  "is_space c \<Longrightarrow> split_from cur (a @ c # b) = split_from cur a @ split_from [] b"
  by (induction a arbitrary: cur) simp_all

lemma split_from_token:
  "list_all (\<lambda>c. \<not> is_space c) t \<Longrightarrow> split_from cur (t @ s) = split_from (cur @ t) s"
  by (induction t arbitrary: cur) simp_all

lemma str_split_separator:
  "is_space c \<Longrightarrow> str_split (a @ c # b) = str_split a @ str_split b"
  by (simp add: str_split_def split_from_append_space)

lemma str_split_token:
  assumes "t \<noteq> []" and "list_all (\<lambda>c. \<not> is_space c) t"
  shows "str_split t = [t]"
  using split_from_token [OF assms(2), of "[]" "[]"] assms(1) by (simp add: str_split_def)

lemma split_from_empty_iff:
  "split_from cur s = [] \<longleftrightarrow> cur = [] \<and> list_all is_space s"
  by (induction s arbitrary: cur) auto

lemma str_split_empty_iff: "str_split s = [] \<longleftrightarrow> list_all is_space s"
  by (simp add: str_split_def split_from_empty_iff)

lemma split_from_tokens:
  "list_all (\<lambda>c. \<not> is_space c) cur \<Longrightarrow>
   list_all (\<lambda>t. t \<noteq> [] \<and> list_all (\<lambda>c. \<not> is_space c) t) (split_from cur s)"
  by (induction s arbitrary: cur) auto

lemma str_split_tokens:
  "list_all (\<lambda>t. t \<noteq> [] \<and> list_all (\<lambda>c. \<not> is_space c) t) (str_split s)"
  by (simp add: str_split_def split_from_tokens)

lemma take_2_empty_iff: "take 2 xs = [] \<longleftrightarrow> xs = []"
  by (cases xs) simp_all

subsection \<open>Timestamps\<close>

lemma digit_char_is_digit: "n < 10 \<Longrightarrow> is_digit (digit_char n)"
  by (simp add: is_digit_def digit_char_def)

lemma digit_value_digit_char: "n < 10 \<Longrightarrow> digit_value (digit_char n) = n"
  by (simp add: digit_value_def digit_char_def)

lemma read_digits_decimal:
  "read_digits (length (decimal n) + k) acc (decimal n @ s) =
     read_digits k (acc * 10 ^ length (decimal n) + n) s"
proof (induction n arbitrary: acc k s rule: decimal.induct)
  case (1 n)
  show ?case
  proof (cases "n < 10")
    case True
    then show ?thesis
      by (simp add: decimal.simps [of n] digit_char_is_digit digit_value_digit_char mult.commute)
  next
    case False
    have d: "decimal n = decimal (n div 10) @ [digit_char (n mod 10)]"
      using False by (simp add: decimal.simps [of n])
    have "read_digits (length (decimal n) + k) acc (decimal n @ s) =
          read_digits (length (decimal (n div 10)) + Suc k) acc
            (decimal (n div 10) @ digit_char (n mod 10) # s)"
      by (simp add: d)
    also have "\<dots> = read_digits (Suc k) (acc * 10 ^ length (decimal (n div 10)) + n div 10)
            (digit_char (n mod 10) # s)"
      by (rule "1.IH" [OF False])
    also have "\<dots> = read_digits k (acc * 10 ^ length (decimal n) + n) s"
      by (simp add: d digit_char_is_digit digit_value_digit_char algebra_simps)
    finally show ?thesis .
  qed
qed

lemma read_digits_zeros:
  "read_digits (j + k) 0 (replicate j CHR ''0'' @ s) = read_digits k 0 s"
  by (induction j) (simp_all add: is_digit_def digit_value_def)

lemma length_decimal: "0 < w \<Longrightarrow> n < 10 ^ w \<Longrightarrow> length (decimal n) \<le> w"
proof (induction w arbitrary: n)
  case 0
  then show ?case by simp
next
  case (Suc w)
  show ?case
  proof (cases "n < 10")
    case True
    then show ?thesis by (simp add: decimal.simps [of n])
  next
    case False
    then have "0 < w" using Suc.prems by (cases w) auto
    moreover have "n div 10 < 10 ^ w" using Suc.prems by (simp add: less_mult_imp_div_less)
    ultimately have "length (decimal (n div 10)) \<le> w" by (rule Suc.IH)
    then show ?thesis using False by (simp add: decimal.simps [of n])
  qed
qed

lemma read_digits_zero_pad:
  assumes "0 < w" and "n < 10 ^ w"
  shows "read_digits w 0 (zero_pad w n @ s) = Some (n, s)"
proof -
  let ?l = "length (decimal n)"
  have le: "?l \<le> w" using assms by (rule length_decimal)
  have "read_digits w 0 (zero_pad w n @ s) =
        read_digits ((w - ?l) + ?l) 0 (replicate (w - ?l) CHR ''0'' @ decimal n @ s)"
    using le by (simp add: zero_pad_def)
  also have "\<dots> = read_digits ?l 0 (decimal n @ s)"
    by (rule read_digits_zeros)
  also have "\<dots> = read_digits 0 n s"
    using read_digits_decimal [of n 0 0 s] by simp
  finally show ?thesis by simp
qed

lemma parse_isoformat:
  assumes "valid_datetime t"
  shows "parse_iso8601 (isoformat t) = Some t"
proof -
  have y: "year t < 10 ^ 4" and mo: "month t < 10 ^ 2" and d: "day t < 10 ^ 2"
    and h: "hour t < 10 ^ 2" and mi: "minute t < 10 ^ 2" and s: "second t < 10 ^ 2"
    and us: "microsecond t < 10 ^ 6"
    using assms by (simp_all add: valid_datetime_def)
  have frac: "read_fraction (if microsecond t = 0 then [] else ''.'' @ zero_pad 6 (microsecond t))
                = Some (microsecond t)"
    using read_digits_zero_pad [of 6 "microsecond t" "[]"] us
    by (simp add: read_fraction_def)
  have whole: "\<lparr> year = year t, month = month t, day = day t, hour = hour t,
      minute = minute t, second = second t, microsecond = microsecond t \<rparr> = t"
    by (cases t) simp
  show ?thesis
    unfolding parse_iso8601_def isoformat_def
    using assms
    by (simp add: whole read_digits_zero_pad [OF _ y] read_digits_zero_pad [OF _ mo]
        read_digits_zero_pad [OF _ d] read_digits_zero_pad [OF _ h]
        read_digits_zero_pad [OF _ mi] read_digits_zero_pad [OF _ s] frac
        del: append_assoc)
qed

lemma isoformat_noon: "isoformat noon = ''2024-05-07T12:00:09''"
  by code_simp

subsection \<open>What \<^verbatim>\<open>health\<close> computes, case by case\<close>

lemmas io_defs = io_return_def io_raise_def io_bind_def io_try_def driver_call_def
  psycopg2_connect_def conn_cursor_def cur_execute_def cur_fetchone_def cur_close_def
  conn_close_def get_db_connection_def

lemma run_health_connect_fails:
  assumes "connect_result d (DB_HOST cfg) (DB_NAME cfg) (DB_USER cfg) (DB_PASS cfg) = Raise e"
  shows "run_health cfg d now =
    (Return ([(''status'', JStr ''unhealthy''), (''database'', JStr ''disconnected''),
              (''timestamp'', JStr (isoformat now))], 503),
     [EvConnect (DB_HOST cfg) (DB_NAME cfg) (DB_USER cfg) (DB_PASS cfg)])"
  using assms by (simp add: run_health_def health_def io_defs jsonify_def)

lemma run_health_cursor_fails:
  assumes "connect_result d (DB_HOST cfg) (DB_NAME cfg) (DB_USER cfg) (DB_PASS cfg) = Return conn"
    and "cursor_result d = Raise e"
  shows "run_health cfg d now =
    (Return ([(''status'', JStr ''degraded''), (''database'', JStr ''error''),
              (''error'', JStr (str_exn e)), (''timestamp'', JStr (isoformat now))], 500),
     [EvConnect (DB_HOST cfg) (DB_NAME cfg) (DB_USER cfg) (DB_PASS cfg), EvCursor])"
  using assms by (simp add: run_health_def health_def io_defs jsonify_def)

lemma run_health_execute_fails:
  assumes "connect_result d (DB_HOST cfg) (DB_NAME cfg) (DB_USER cfg) (DB_PASS cfg) = Return conn"
    and "cursor_result d = Return cur"
    and "execute_result d ''SELECT version();'' = Raise e"
  shows "run_health cfg d now =
    (Return ([(''status'', JStr ''degraded''), (''database'', JStr ''error''),
              (''error'', JStr (str_exn e)), (''timestamp'', JStr (isoformat now))], 500),
     [EvConnect (DB_HOST cfg) (DB_NAME cfg) (DB_USER cfg) (DB_PASS cfg), EvCursor,
      EvExecute ''SELECT version();''])"
  using assms by (simp add: run_health_def health_def io_defs jsonify_def)

lemma run_health_fetchone_fails:
  assumes "connect_result d (DB_HOST cfg) (DB_NAME cfg) (DB_USER cfg) (DB_PASS cfg) = Return conn"
    and "cursor_result d = Return cur"
    and "execute_result d ''SELECT version();'' = Return u"
    and "fetchone_result d = Raise e"
  shows "run_health cfg d now =
    (Return ([(''status'', JStr ''degraded''), (''database'', JStr ''error''),
              (''error'', JStr (str_exn e)), (''timestamp'', JStr (isoformat now))], 500),
     [EvConnect (DB_HOST cfg) (DB_NAME cfg) (DB_USER cfg) (DB_PASS cfg), EvCursor,
      EvExecute ''SELECT version();'', EvFetchone])"
  using assms by (simp add: run_health_def health_def io_defs jsonify_def)

lemma run_health_no_row:
  assumes "connect_result d (DB_HOST cfg) (DB_NAME cfg) (DB_USER cfg) (DB_PASS cfg) = Return conn"
    and "cursor_result d = Return cur"
    and "execute_result d ''SELECT version();'' = Return u"
    and "fetchone_result d = Return None"
  shows "run_health cfg d now =
    (Return ([(''status'', JStr ''degraded''), (''database'', JStr ''error''),
              (''error'', JStr (quoted ''NoneType'' @ '' object is not subscriptable'')),
              (''timestamp'', JStr (isoformat now))], 500),
     [EvConnect (DB_HOST cfg) (DB_NAME cfg) (DB_USER cfg) (DB_PASS cfg), EvCursor,
      EvExecute ''SELECT version();'', EvFetchone])"
  using assms by (simp add: run_health_def health_def io_defs jsonify_def subscript0_def)

lemma run_health_version:
  assumes "connect_result d (DB_HOST cfg) (DB_NAME cfg) (DB_USER cfg) (DB_PASS cfg) = Return conn"
    and "cursor_result d = Return cur"
    and "execute_result d ''SELECT version();'' = Return u"
    and "fetchone_result d = Return (Some (PyStr v # columns))"
  shows "run_health cfg d now =
    (Return ([(''status'', JStr ''healthy''), (''database'', JStr ''connected''),
              (''db_version'', JList (take 2 (str_split v))),
              (''timestamp'', JStr (isoformat now))], 200),
     [EvConnect (DB_HOST cfg) (DB_NAME cfg) (DB_USER cfg) (DB_PASS cfg), EvCursor,
      EvExecute ''SELECT version();'', EvFetchone, EvCursorClose, EvConnClose])"
  using assms by (simp add: run_health_def health_def io_defs jsonify_def subscript0_def py_split_def)

lemma run_health_answers:
  "\<exists>body code tr. run_health cfg d now = (Return (body, code), tr) \<and>
     (code, map_of body ''status'', map_of body ''database'') \<in>
       {(200, Some (JStr ''healthy''), Some (JStr ''connected'')),
        (500, Some (JStr ''degraded''), Some (JStr ''error'')),
        (503, Some (JStr ''unhealthy''), Some (JStr ''disconnected''))} \<and>
     map_of body ''timestamp'' = Some (JStr (isoformat now))"
  by (simp add: run_health_def health_def io_defs jsonify_def subscript0_def py_split_def
      split: res.splits option.splits list.splits pyval.splits)


lemma run_health_closes_iff:
  assumes "connect_result d (DB_HOST cfg) (DB_NAME cfg) (DB_USER cfg) (DB_PASS cfg) = Return conn"
  shows "EvConnClose \<in> set (snd (run_health cfg d now)) \<longleftrightarrow>
    (\<exists>cur u v columns. cursor_result d = Return cur \<and>
       execute_result d ''SELECT version();'' = Return u \<and>
       fetchone_result d = Return (Some (v # columns)))"
  using assms
  by (simp add: run_health_def health_def io_defs jsonify_def subscript0_def py_split_def
      split: res.splits option.splits list.splits pyval.splits)

lemma run_health_timestamp_only:
  "snd (run_health cfg d t1) = snd (run_health cfg d t2) \<and>
   map_res drop_timestamp (fst (run_health cfg d t1)) =
     map_res drop_timestamp (fst (run_health cfg d t2))"
  by (simp add: run_health_def health_def io_defs jsonify_def subscript0_def py_split_def
      drop_timestamp_def map_res_def
      split: res.splits option.splits list.splits pyval.splits)

lemma run_health_connects_once:
  "\<exists>rest. snd (run_health cfg d now) =
      EvConnect (DB_HOST cfg) (DB_NAME cfg) (DB_USER cfg) (DB_PASS cfg) # rest \<and>
     filter is_connect rest = []"
  by (simp add: run_health_def health_def io_defs jsonify_def subscript0_def py_split_def
      is_connect_def
      split: res.splits option.splits list.splits pyval.splits)

text \<open>A session is the list of the single invocations, and the process is unchanged.\<close>

lemma health_session_map:
  "health_session p obs = (map (\<lambda>ob. run_health (module_config p) (fst ob) (snd ob)) obs, p)"
  by (induction obs) (auto simp add: health_request_def)

lemma summary_run_health: "summary (run_health cfg d now) = Some (spec_probe cfg d)"
proof (cases "connect_result d (DB_HOST cfg) (DB_NAME cfg) (DB_USER cfg) (DB_PASS cfg)")
  case (Raise e)
  then show ?thesis
    by (simp add: run_health_connect_fails [OF Raise] summary_def spec_probe_def field_def
        status_code_def)
next
  case (Return conn)
  have run: "run_health cfg d now = health cfg d now []"
    by (simp add: run_health_def)
  show ?thesis
    using Return
    by (auto simp add: run summary_def spec_probe_def query_version_def field_def
        status_code_def health_def io_defs jsonify_def subscript0_def py_split_def
        split: res.splits option.splits list.splits pyval.splits)
qed

lemma connects_once_run_health: "connects_once cfg (run_health cfg d now)"
  using run_health_connects_once [of cfg d now] by (auto simp add: connects_once_def)

lemma without_timestamp_run_health:
  "without_timestamp (run_health cfg d t1) = without_timestamp (run_health cfg d t2)"
  using run_health_timestamp_only [of cfg d t1 t2] by (simp add: without_timestamp_def)

subsection \<open>The claims about \<^verbatim>\<open>/health\<close>\<close>

text \<open>
  Claim C1: whenever the connection was opened, the handler has closed it when it
  returns, on every path and whatever the query did.

  The handler calls \<^verbatim>\<open>conn.close()\<close> only at the end of the \<^verbatim>\<open>try\<close> body. With
  a server that accepts the connection and rejects the statement, the handler answers 500
  and the trace of its driver calls ends with the failed \<^verbatim>\<open>execute\<close>: the connection
  is never closed. (\<open>run_health_closes_iff\<close> above says when it is.)
\<close>

theorem health_query_error_keeps_connection_open:
  "connect_result (db_query_error ''statement timeout'')
     ''localhost'' ''testdb'' ''testuser'' ''testpass'' = Return Connection \<and>
   run_health default_config (db_query_error ''statement timeout'') noon =
     (Return ([(''status'', JStr ''degraded''), (''database'', JStr ''error''),
               (''error'', JStr ''statement timeout''),
               (''timestamp'', JStr (isoformat noon))], 500),
      [EvConnect ''localhost'' ''testdb'' ''testuser'' ''testpass'', EvCursor,
       EvExecute ''SELECT version();'']) \<and>
   EvConnClose \<notin> set (snd (run_health default_config (db_query_error ''statement timeout'') noon))"
proof -
  have opened: "connect_result (db_query_error ''statement timeout'')
      (DB_HOST default_config) (DB_NAME default_config) (DB_USER default_config)
      (DB_PASS default_config) = Return Connection"
    by (simp add: db_query_error_def)
  have cur: "cursor_result (db_query_error ''statement timeout'') = Return Cursor"
    by (simp add: db_query_error_def)
  have exe: "execute_result (db_query_error ''statement timeout'') ''SELECT version();'' =
      Raise (Exn ''statement timeout'')"
    by (simp add: db_query_error_def)
  show ?thesis
    using run_health_execute_fails [OF opened cur exe, of noon]
    by (simp add: default_config_def load_config_def environ_get_def db_query_error_def)
qed

text \<open>
  Claim C2, as amended: when the connection opens and the query yields a row whose first
  column is the string \<open>v\<close>, the answer has status code 200, \<^verbatim>\<open>status\<close>
  \<^verbatim>\<open>healthy\<close>, \<^verbatim>\<open>database\<close> \<^verbatim>\<open>connected\<close>, and \<^verbatim>\<open>db_version\<close> is the list
  of the first two tokens of \<open>v.split()\<close> (fewer when \<open>v\<close> has fewer). That list is
  empty exactly when \<open>v\<close> has no character other than whitespace.
\<close>

theorem health_healthy:
  assumes "connect_result d (DB_HOST cfg) (DB_NAME cfg) (DB_USER cfg) (DB_PASS cfg) = Return conn"
    and "cursor_result d = Return cur"
    and "execute_result d ''SELECT version();'' = Return u"
    and "fetchone_result d = Return (Some (PyStr v # columns))"
  shows "\<exists>r. fst (run_health cfg d now) = Return r \<and> status_code r = 200 \<and>
    field r ''status'' = Some (JStr ''healthy'') \<and>
    field r ''database'' = Some (JStr ''connected'') \<and>
    field r ''db_version'' = Some (JList (take 2 (str_split v))) \<and>
    (take 2 (str_split v) = [] \<longleftrightarrow> list_all is_space v)"
  by (simp add: run_health_version [OF assms] field_def status_code_def take_2_empty_iff
      str_split_empty_iff)

theorem health_healthy_witness:
  "connect_result (db_serving ''PostgreSQL 16.3 on x86_64-pc-linux-gnu'')
     (DB_HOST default_config) (DB_NAME default_config) (DB_USER default_config)
     (DB_PASS default_config) = Return Connection \<and>
   cursor_result (db_serving ''PostgreSQL 16.3 on x86_64-pc-linux-gnu'') = Return Cursor \<and>
   execute_result (db_serving ''PostgreSQL 16.3 on x86_64-pc-linux-gnu'') ''SELECT version();'' =
     Return () \<and>
   fetchone_result (db_serving ''PostgreSQL 16.3 on x86_64-pc-linux-gnu'') =
     Return (Some [PyStr ''PostgreSQL 16.3 on x86_64-pc-linux-gnu'']) \<and>
   (\<exists>r. fst (run_health default_config (db_serving ''PostgreSQL 16.3 on x86_64-pc-linux-gnu'') noon)
          = Return r \<and> status_code r = 200 \<and>
        field r ''status'' = Some (JStr ''healthy'') \<and>
        field r ''database'' = Some (JStr ''connected'') \<and>
        field r ''db_version'' = Some (JList [''PostgreSQL'', ''16.3'']))"
proof -
  let ?d = "db_serving ''PostgreSQL 16.3 on x86_64-pc-linux-gnu''"
  have h1: "connect_result ?d (DB_HOST default_config) (DB_NAME default_config)
      (DB_USER default_config) (DB_PASS default_config) = Return Connection"
    by (simp add: db_serving_def)
  have h2: "cursor_result ?d = Return Cursor"
    by (simp add: db_serving_def)
  have h3: "execute_result ?d ''SELECT version();'' = Return ()"
    by (simp add: db_serving_def)
  have h4: "fetchone_result ?d = Return (Some [PyStr ''PostgreSQL 16.3 on x86_64-pc-linux-gnu''])"
    by (simp add: db_serving_def)
  have toks: "take 2 (str_split ''PostgreSQL 16.3 on x86_64-pc-linux-gnu'') =
      [''PostgreSQL'', ''16.3'']"
    by (simp add: str_split_def is_space_def)
  show ?thesis
    using h1 h2 h3 h4 health_healthy [OF h1 h2 h3 h4, of noon] by (auto simp add: toks)
qed

text \<open>
  The claim as it is written asks for a version detail that is not empty. A server that
  answers the empty string gets 200 and \<^verbatim>\<open>healthy\<close> with the empty list.
\<close>

theorem health_blank_version_counterexample:
  "connect_result (db_serving '''') ''localhost'' ''testdb'' ''testuser'' ''testpass'' =
     Return Connection \<and>
   cursor_result (db_serving '''') = Return Cursor \<and>
   execute_result (db_serving '''') ''SELECT version();'' = Return () \<and>
   fetchone_result (db_serving '''') = Return (Some [PyStr '''']) \<and>
   fst (run_health default_config (db_serving '''') noon) =
     Return ([(''status'', JStr ''healthy''), (''database'', JStr ''connected''),
              (''db_version'', JList []), (''timestamp'', JStr (isoformat noon))], 200)"
  by (simp add: db_serving_def default_config_def load_config_def environ_get_def
      run_health_def health_def io_defs jsonify_def subscript0_def py_split_def str_split_def)

text \<open>
  Claim C3, as amended: when the connection opens and the query fails, that is
  \<^verbatim>\<open>conn.cursor()\<close>, \<^verbatim>\<open>cur.execute\<close> or \<^verbatim>\<open>cur.fetchone()\<close> raises an
  exception \<open>e\<close>, the answer has status code 500, \<^verbatim>\<open>status\<close> \<^verbatim>\<open>degraded\<close>,
  \<^verbatim>\<open>database\<close> \<^verbatim>\<open>error\<close>, and \<^verbatim>\<open>error\<close> is the message \<^verbatim>\<open>str(e)\<close>, whatever
  that message is; there is no \<^verbatim>\<open>db_version\<close>.
\<close>

theorem health_degraded:
  assumes "connect_result d (DB_HOST cfg) (DB_NAME cfg) (DB_USER cfg) (DB_PASS cfg) = Return conn"
    and "cursor_result d = Raise e \<or>
         cursor_result d = Return Cursor \<and> execute_result d ''SELECT version();'' = Raise e \<or>
         cursor_result d = Return Cursor \<and> execute_result d ''SELECT version();'' = Return () \<and>
           fetchone_result d = Raise e"
  shows "\<exists>r. fst (run_health cfg d now) = Return r \<and> status_code r = 500 \<and>
    field r ''status'' = Some (JStr ''degraded'') \<and>
    field r ''database'' = Some (JStr ''error'') \<and>
    field r ''error'' = Some (JStr (str_exn e)) \<and>
    field r ''db_version'' = None"
  using assms(2)
proof (elim disjE conjE)
  assume "cursor_result d = Raise e"
  from run_health_cursor_fails [OF assms(1) this, of now]
  show ?thesis by (simp add: field_def status_code_def)
next
  assume "cursor_result d = Return Cursor" and "execute_result d ''SELECT version();'' = Raise e"
  from run_health_execute_fails [OF assms(1) this, of now]
  show ?thesis by (simp add: field_def status_code_def)
next
  assume "cursor_result d = Return Cursor"
    and "execute_result d ''SELECT version();'' = Return ()"
    and "fetchone_result d = Raise e"
  from run_health_fetchone_fails [OF assms(1) this, of now]
  show ?thesis by (simp add: field_def status_code_def)
qed

theorem health_degraded_witness:
  "connect_result (db_query_error ''statement timeout'')
     (DB_HOST default_config) (DB_NAME default_config) (DB_USER default_config)
     (DB_PASS default_config) = Return Connection \<and>
   cursor_result (db_query_error ''statement timeout'') = Return Cursor \<and>
   execute_result (db_query_error ''statement timeout'') ''SELECT version();'' =
     Raise (Exn ''statement timeout'') \<and>
   (\<exists>r. fst (run_health default_config (db_query_error ''statement timeout'') noon) = Return r \<and>
        status_code r = 500 \<and>
        field r ''status'' = Some (JStr ''degraded'') \<and>
        field r ''database'' = Some (JStr ''error'') \<and>
        field r ''error'' = Some (JStr ''statement timeout'') \<and>
        field r ''db_version'' = None)"
proof -
  let ?d = "db_query_error ''statement timeout''"
  have h1: "connect_result ?d (DB_HOST default_config) (DB_NAME default_config)
      (DB_USER default_config) (DB_PASS default_config) = Return Connection"
    by (simp add: db_query_error_def)
  have h2: "cursor_result ?d = Return Cursor"
    by (simp add: db_query_error_def)
  have h3: "execute_result ?d ''SELECT version();'' = Raise (Exn ''statement timeout'')"
    by (simp add: db_query_error_def)
  have fails: "cursor_result ?d = Raise (Exn ''statement timeout'') \<or>
      cursor_result ?d = Return Cursor \<and>
        execute_result ?d ''SELECT version();'' = Raise (Exn ''statement timeout'') \<or>
      cursor_result ?d = Return Cursor \<and> execute_result ?d ''SELECT version();'' = Return () \<and>
        fetchone_result ?d = Raise (Exn ''statement timeout'')"
    using h2 h3 by simp
  show ?thesis
    using h1 h2 h3 health_degraded [OF h1 fails, of noon] by simp
qed

text \<open>
  The claim as it is written asks for an error detail that is not empty. The detail is
  \<^verbatim>\<open>str(e)\<close>, and an exception raised with no message gives the empty string.
\<close>

theorem health_empty_message_counterexample:
  "connect_result (db_query_error '''') ''localhost'' ''testdb'' ''testuser'' ''testpass'' =
     Return Connection \<and>
   cursor_result (db_query_error '''') = Return Cursor \<and>
   execute_result (db_query_error '''') ''SELECT version();'' = Raise (Exn '''') \<and>
   fst (run_health default_config (db_query_error '''') noon) =
     Return ([(''status'', JStr ''degraded''), (''database'', JStr ''error''),
              (''error'', JStr ''''), (''timestamp'', JStr (isoformat noon))], 500)"
  by (simp add: db_query_error_def default_config_def load_config_def environ_get_def
      run_health_def health_def io_defs jsonify_def)

text \<open>
  Claim C4: when \<^verbatim>\<open>psycopg2.connect\<close> raises, whatever the exception, the answer has
  status code 503, \<^verbatim>\<open>status\<close> \<^verbatim>\<open>unhealthy\<close>, \<^verbatim>\<open>database\<close> \<^verbatim>\<open>disconnected\<close>,
  its fields are \<^verbatim>\<open>status\<close>, \<^verbatim>\<open>database\<close> and \<^verbatim>\<open>timestamp\<close> only (no
  \<^verbatim>\<open>db_version\<close>, no \<^verbatim>\<open>error\<close>), and the connection attempt is the only driver
  call made: no cursor, no query.
\<close>

theorem health_unhealthy:
  assumes "connect_result d (DB_HOST cfg) (DB_NAME cfg) (DB_USER cfg) (DB_PASS cfg) = Raise e"
  shows "\<exists>r. run_health cfg d now =
      (Return r, [EvConnect (DB_HOST cfg) (DB_NAME cfg) (DB_USER cfg) (DB_PASS cfg)]) \<and>
    status_code r = 503 \<and>
    field r ''status'' = Some (JStr ''unhealthy'') \<and>
    field r ''database'' = Some (JStr ''disconnected'') \<and>
    field r ''db_version'' = None \<and> field r ''error'' = None \<and>
    map fst (fst r) = [''status'', ''database'', ''timestamp'']"
  by (simp add: run_health_connect_fails [OF assms] field_def status_code_def)

theorem health_unhealthy_witness:
  "connect_result db_unreachable (DB_HOST default_config) (DB_NAME default_config)
     (DB_USER default_config) (DB_PASS default_config) = Raise (Exn ''connection refused'') \<and>
   (\<exists>r. run_health default_config db_unreachable noon =
      (Return r, [EvConnect ''localhost'' ''testdb'' ''testuser'' ''testpass'']) \<and>
    status_code r = 503 \<and>
    field r ''status'' = Some (JStr ''unhealthy'') \<and>
    field r ''database'' = Some (JStr ''disconnected'') \<and>
    field r ''db_version'' = None \<and> field r ''error'' = None \<and>
    map fst (fst r) = [''status'', ''database'', ''timestamp''])"
proof -
  have h: "connect_result db_unreachable (DB_HOST default_config) (DB_NAME default_config)
     (DB_USER default_config) (DB_PASS default_config) = Raise (Exn ''connection refused'')"
    by (simp add: db_unreachable_def)
  have cfg: "DB_HOST default_config = ''localhost''" "DB_NAME default_config = ''testdb''"
    "DB_USER default_config = ''testuser''" "DB_PASS default_config = ''testpass''"
    by (simp_all add: default_config_def load_config_def environ_get_def)
  show ?thesis
    using h health_unhealthy [OF h, of noon] by (simp add: cfg)
qed

text \<open>
  Claim C5: whatever the driver does (each of its calls may return or raise any
  exception, and a row may be missing or hold anything), the handler returns a response
  and raises nothing. The response is one of the three structured answers, with its
  timestamp.
\<close>

theorem health_never_raises:
  "\<exists>r. fst (run_health cfg d now) = Return r \<and>
     (status_code r, field r ''status'', field r ''database'') \<in>
       {(200, Some (JStr ''healthy''), Some (JStr ''connected'')),
        (500, Some (JStr ''degraded''), Some (JStr ''error'')),
        (503, Some (JStr ''unhealthy''), Some (JStr ''disconnected''))} \<and>
     field r ''timestamp'' = Some (JStr (isoformat now))"
proof -
  from run_health_answers [of cfg d now] obtain body code tr where
    "run_health cfg d now = (Return (body, code), tr)"
    "(code, map_of body ''status'', map_of body ''database'') \<in>
       {(200, Some (JStr ''healthy''), Some (JStr ''connected'')),
        (500, Some (JStr ''degraded''), Some (JStr ''error'')),
        (503, Some (JStr ''unhealthy''), Some (JStr ''disconnected''))}"
    "map_of body ''timestamp'' = Some (JStr (isoformat now))"
    by blast
  then show ?thesis
    by (simp add: field_def status_code_def)
qed

text \<open>
  Claim C8: every invocation of \<^verbatim>\<open>/health\<close> opens its own connection and evaluates
  from scratch; nothing is cached and no state is carried from one invocation to the
  next. For a process in any state that answers any sequence of requests:
  the namespace of the process after the sequence is the one before it;
  the answers to a sequence that follows another are the answers the process gives to
  it alone;
  every answer is the one the specification's probe gives for what the database
  answers during that request, whatever was answered before;
  every invocation starts with one connection attempt, with the configured parameters,
  and makes no other;
  and two processes with the same configuration, whatever else they hold, that observe
  the same answers of the database at different times, make the same driver calls and
  give the same answers, the \<^verbatim>\<open>timestamp\<close> field apart.
\<close>

theorem health_session_reevaluates:
  assumes "module_config p' = module_config p" and "map fst obs' = map fst obs"
  shows "snd (health_session p obs) = p \<and>
    fst (health_session p (obs @ later)) =
      fst (health_session p obs) @ fst (health_session p later) \<and>
    map summary (fst (health_session p obs)) =
      map (\<lambda>ob. Some (spec_probe (module_config p) (fst ob))) obs \<and>
    list_all (connects_once (module_config p)) (fst (health_session p obs)) \<and>
    map without_timestamp (fst (health_session p' obs')) =
      map without_timestamp (fst (health_session p obs))"
proof -
  have same: "map without_timestamp (fst (health_session p' obs')) =
      map without_timestamp (fst (health_session p obs))"
    using assms(2)
  proof (induction obs arbitrary: obs')
    case Nil
    then show ?case by (simp add: health_session_map)
  next
    case (Cons ob obs)
    then obtain ob' rest where obs': "obs' = ob' # rest" and "fst ob' = fst ob"
      and "map fst rest = map fst obs"
      by (cases obs') auto
    then show ?case
      using Cons.IH [of rest]
        without_timestamp_run_health [of "module_config p" "fst ob" "snd ob'" "snd ob"]
      by (simp add: health_session_map assms(1))
  qed
  show ?thesis
    using same
    by (simp add: health_session_map summary_run_health connects_once_run_health
        list_all_iff comp_def)
qed

theorem health_session_reevaluates_witness:
  "module_config used_process = module_config fresh_process \<and>
   map fst (three_checks midnight) = map fst (three_checks noon) \<and>
   snd (health_session fresh_process (three_checks noon)) = fresh_process \<and>
   fst (health_session fresh_process (three_checks noon @ [(db_no_row, midnight)])) =
     fst (health_session fresh_process (three_checks noon)) @
     fst (health_session fresh_process [(db_no_row, midnight)]) \<and>
   map summary (fst (health_session fresh_process (three_checks noon))) =
     [Some (503, ''unhealthy'', ''disconnected'', None),
      Some (200, ''healthy'', ''connected'', Some [''PostgreSQL'', ''16.3'']),
      Some (500, ''degraded'', ''error'', None)] \<and>
   list_all (connects_once (module_config fresh_process))
     (fst (health_session fresh_process (three_checks noon))) \<and>
   map without_timestamp (fst (health_session used_process (three_checks midnight))) =
     map without_timestamp (fst (health_session fresh_process (three_checks noon)))"
proof -
  have h1: "module_config used_process = module_config fresh_process"
    by (simp add: used_process_def)
  have h2: "map fst (three_checks midnight) = map fst (three_checks noon)"
    by (simp add: three_checks_def)
  have toks: "take 2 (str_split ''PostgreSQL 16.3 on x86_64'') = [''PostgreSQL'', ''16.3'']"
    by (simp add: str_split_def is_space_def)
  have probes: "map (\<lambda>ob. Some (spec_probe (module_config fresh_process) (fst ob)))
      (three_checks noon) =
     [Some (503, ''unhealthy'', ''disconnected'', None),
      Some (200, ''healthy'', ''connected'', Some [''PostgreSQL'', ''16.3'']),
      Some (500, ''degraded'', ''error'', None)]"
    by (simp add: three_checks_def spec_probe_def query_version_def db_unreachable_def
        db_serving_def db_query_error_def toks)
  show ?thesis
    using h1 h2 health_session_reevaluates [OF h1 h2, of "[(db_no_row, midnight)]"]
    by (simp add: probes)
qed

text \<open>
  Claim C9: when the connection opens, the query executes and \<^verbatim>\<open>fetchone()\<close> returns
  \<^verbatim>\<open>None\<close>, subscripting it raises inside the \<^verbatim>\<open>try\<close> body, and the answer is 500,
  \<^verbatim>\<open>degraded\<close>, \<^verbatim>\<open>error\<close>, with the message of that exception.
\<close>

theorem health_no_row_is_degraded:
  assumes "connect_result d (DB_HOST cfg) (DB_NAME cfg) (DB_USER cfg) (DB_PASS cfg) = Return conn"
    and "cursor_result d = Return cur"
    and "execute_result d ''SELECT version();'' = Return u"
    and "fetchone_result d = Return None"
  shows "\<exists>r. fst (run_health cfg d now) = Return r \<and> status_code r = 500 \<and>
    field r ''status'' = Some (JStr ''degraded'') \<and>
    field r ''database'' = Some (JStr ''error'') \<and>
    field r ''error'' = Some (JStr (quoted ''NoneType'' @ '' object is not subscriptable'')) \<and>
    field r ''db_version'' = None"
  by (simp add: run_health_no_row [OF assms] field_def status_code_def)

theorem health_no_row_is_degraded_witness:
  "connect_result db_no_row (DB_HOST default_config) (DB_NAME default_config)
     (DB_USER default_config) (DB_PASS default_config) = Return Connection \<and>
   cursor_result db_no_row = Return Cursor \<and>
   execute_result db_no_row ''SELECT version();'' = Return () \<and>
   fetchone_result db_no_row = Return None \<and>
   (\<exists>r. fst (run_health default_config db_no_row noon) = Return r \<and> status_code r = 500 \<and>
    field r ''status'' = Some (JStr ''degraded'') \<and>
    field r ''database'' = Some (JStr ''error'') \<and>
    field r ''error'' = Some (JStr (quoted ''NoneType'' @ '' object is not subscriptable'')) \<and>
    field r ''db_version'' = None)"
proof -
  have h1: "connect_result db_no_row (DB_HOST default_config) (DB_NAME default_config)
     (DB_USER default_config) (DB_PASS default_config) = Return Connection"
    by (simp add: db_no_row_def)
  have h2: "cursor_result db_no_row = Return Cursor"
    by (simp add: db_no_row_def)
  have h3: "execute_result db_no_row ''SELECT version();'' = Return ()"
    by (simp add: db_no_row_def)
  have h4: "fetchone_result db_no_row = Return None"
    by (simp add: db_no_row_def)
  show ?thesis
    using h1 h2 h3 h4 health_no_row_is_degraded [OF h1 h2 h3 h4, of noon] by simp
qed

subsection \<open>The claims about \<^verbatim>\<open>/info\<close> and \<^verbatim>\<open>/\<close>\<close>

text \<open>
  Claim C6: for every environment, \<^verbatim>\<open>/info\<close> answers 200 with \<^verbatim>\<open>database_host\<close>
  and \<^verbatim>\<open>database_name\<close> equal to the configured \<^verbatim>\<open>DB_HOST\<close> and \<^verbatim>\<open>DB_NAME\<close>,
  which are the values of the environment variables of these names when they are set, and
  \<^verbatim>\<open>localhost\<close> and \<^verbatim>\<open>testdb\<close> when they are not.
\<close>

theorem info_echoes_configuration:
  "\<exists>r. serve (load_config env) d now ''/info'' = Some (Return r, []) \<and>
     status_code r = 200 \<and>
     field r ''database_host'' = Some (JStr (DB_HOST (load_config env))) \<and>
     field r ''database_name'' = Some (JStr (DB_NAME (load_config env))) \<and>
     DB_HOST (load_config env) = (case env ''DB_HOST'' of None \<Rightarrow> ''localhost'' | Some v \<Rightarrow> v) \<and>
     DB_NAME (load_config env) = (case env ''DB_NAME'' of None \<Rightarrow> ''testdb'' | Some v \<Rightarrow> v)"
  by (simp add: serve_def info_def flask_default_def jsonify_def field_def status_code_def
      load_config_def environ_get_def)

theorem info_echoes_configuration_witness:
  "(\<exists>r. serve (load_config [''DB_HOST'' \<mapsto> ''db1'']) db_unreachable noon ''/info'' =
        Some (Return r, []) \<and>
      status_code r = 200 \<and>
      field r ''database_host'' = Some (JStr ''db1'') \<and>
      field r ''database_name'' = Some (JStr ''testdb''))"
  using info_echoes_configuration [of "[''DB_HOST'' \<mapsto> ''db1'']" db_unreachable noon]
  by auto

text \<open>
  Claim C10: for every configuration, \<^verbatim>\<open>/info\<close> answers \<^verbatim>\<open>python_version\<close>
  \<^verbatim>\<open>3.12.3\<close> and \<^verbatim>\<open>flask_version\<close> \<^verbatim>\<open>installed\<close>: two literals, computed from
  nothing. The answer depends on the configuration alone.
\<close>

theorem info_versions_are_literals:
  "field (info cfg) ''python_version'' = Some (JStr ''3.12.3'') \<and>
   field (info cfg) ''flask_version'' = Some (JStr ''installed'') \<and>
   serve cfg d now ''/info'' = Some (Return (info cfg), [])"
  by (simp add: serve_def info_def flask_default_def jsonify_def field_def)

text \<open>
  Claim C7: whatever the database does, \<^verbatim>\<open>/\<close> answers 200 with the fields
  \<^verbatim>\<open>service\<close>, \<^verbatim>\<open>message\<close>, \<^verbatim>\<open>timestamp\<close> and \<^verbatim>\<open>status\<close>; the timestamp is
  \<^verbatim>\<open>isoformat()\<close> of the clock's value and reads back, as ISO 8601, to that value;
  the answer is the same for every database and configuration, and no driver call is
  made.
\<close>

theorem home_answers:
  assumes "valid_datetime now"
  shows "\<exists>r. serve cfg d now ''/'' = Some (Return r, []) \<and>
     status_code r = 200 \<and>
     map fst (fst r) = [''service'', ''message'', ''timestamp'', ''status''] \<and>
     field r ''timestamp'' = Some (JStr (isoformat now)) \<and>
     parse_iso8601 (isoformat now) = Some now \<and>
     serve cfg' d' now ''/'' = serve cfg d now ''/''"
  by (simp add: serve_def home_def flask_default_def jsonify_def field_def status_code_def
      parse_isoformat [OF assms])

theorem home_answers_witness:
  "valid_datetime noon \<and>
   (\<exists>r. serve default_config db_unreachable noon ''/'' = Some (Return r, []) \<and>
     status_code r = 200 \<and>
     map fst (fst r) = [''service'', ''message'', ''timestamp'', ''status''] \<and>
     field r ''timestamp'' = Some (JStr (isoformat noon)) \<and>
     parse_iso8601 (isoformat noon) = Some noon \<and>
     serve default_config (db_serving ''PostgreSQL 16.3'') noon ''/'' =
       serve default_config db_unreachable noon ''/'')"
proof -
  have h: "valid_datetime noon"
    by (simp add: valid_datetime_def noon_def)
  show ?thesis
    using h home_answers [OF h, of default_config db_unreachable default_config
        "db_serving ''PostgreSQL 16.3''"]
    by simp
qed

end
